theory Spec2Isabelle
  imports Main "HOL-Library.Sublist" "HOL-Library.Word"
begin

section \<open>C strings and the library calls the plugin uses\<close>

text \<open>
  A C string is modelled by the list of the bytes that stand before its terminating NUL,
  so the end of the list is the terminator: a loop \<^verbatim>\<open>while (*p)\<close> stops at the
  end of the list, and reading the byte at offset \<open>length a\<close> yields NUL.
  A pointer into a string that is only moved forward is the remaining suffix; a pointer
  that is compared with other pointers or read at \<^verbatim>\<open>p - 1\<close> is an offset into
  the string.
\<close>

abbreviation DQUOTE :: char where "DQUOTE \<equiv> CHR 0x22"
abbreviation BSL :: char where "BSL \<equiv> CHR 0x5C"
abbreviation TAB :: char where "TAB \<equiv> CHR 0x09"
abbreviation NL :: char where "NL \<equiv> CHR 0x0A"
abbreviation NUL :: char where "NUL \<equiv> CHR 0x00"

definition peek :: "string \<Rightarrow> nat \<Rightarrow> char" where
  "peek a i = (if i < length a then a ! i else NUL)"

text \<open>The test \<^verbatim>\<open>c == ' ' || c == '\t' || c == '\n'\<close> of the three whitespace loops.\<close>

definition is_space :: "char \<Rightarrow> bool" where
  "is_space c \<longleftrightarrow> c = CHR '' '' \<or> c = TAB \<or> c = NL"

text \<open>\<^verbatim>\<open>strstr\<close>: the suffix that starts at the first occurrence of the needle.\<close>

fun strstr :: "string \<Rightarrow> string \<Rightarrow> string option" where
  "strstr [] needle = (if needle = [] then Some [] else None)"
| "strstr (c # cs) needle =
     (if prefix needle (c # cs) then Some (c # cs) else strstr cs needle)"

text \<open>\<^verbatim>\<open>strchr\<close> for a byte other than NUL (the plugin searches for a colon and
  for a double quote only).\<close>

fun strchr :: "string \<Rightarrow> char \<Rightarrow> string option" where
  "strchr [] ch = None"
| "strchr (c # cs) ch = (if c = ch then Some (c # cs) else strchr cs ch)"

text \<open>\<^verbatim>\<open>snprintf(result, 4096, ...)\<close> keeps at most 4095 bytes of the formatted text.\<close>

definition snprintf_4096 :: "string \<Rightarrow> string" where
  "snprintf_4096 s = take 4095 s"

text \<open>The conversions \<^verbatim>\<open>%zu\<close> and \<^verbatim>\<open>%d\<close>: decimal digits.\<close>

definition digit_char :: "nat \<Rightarrow> char" where
  "digit_char d = ''0123456789'' ! d"

function show_nat :: "nat \<Rightarrow> string" where
  "show_nat n = (if n < 10 then [digit_char n] else show_nat (n div 10) @ [digit_char (n mod 10)])"
  by pat_completeness auto
termination
  by (relation "measure id") auto

declare show_nat.simps [simp del]

definition show_int :: "int \<Rightarrow> string" where
  "show_int i = (if i < 0 then CHR ''-'' # show_nat (nat (- i)) else show_nat (nat i))"

section \<open>The one-time random seeding\<close>

text \<open>
  The static flag \<^verbatim>\<open>random_initialized\<close> and the seed that \<^verbatim>\<open>srand\<close> stores are
  the only state that outlives a call. The clock value \<^verbatim>\<open>time(NULL)\<close> is an input of
  the model; the cast to \<^verbatim>\<open>unsigned int\<close> keeps its low 32 bits.
\<close>

record plugin_state =
  random_initialized :: bool
  rand_seed :: "32 word"

definition init_random :: "plugin_state \<Rightarrow> int \<Rightarrow> plugin_state" where
  "init_random st now =
     (if \<not> random_initialized st
      then st\<lparr>rand_seed := word_of_int now, random_initialized := True\<rparr>
      else st)"

section \<open>The JSON helpers\<close>

text \<open>
  \<^verbatim>\<open>find_json_value\<close>: the search pattern is written into a buffer of 256 bytes, so at
  most 255 bytes of it are kept. The result is the text that starts at the first byte
  after the colon that is not a blank.
\<close>

definition find_json_value :: "string \<Rightarrow> string \<Rightarrow> string option" where
  "find_json_value json key =
     (let search = take 255 ([DQUOTE] @ key @ [DQUOTE, CHR '':''])
      in case strstr json search of
           None \<Rightarrow> None
         | Some pos \<Rightarrow>
             (case strchr pos (CHR '':'') of
                None \<Rightarrow> None
              | Some pos' \<Rightarrow> Some (dropWhile is_space (tl pos'))))"

text \<open>
  \<^verbatim>\<open>extract_json_string\<close>: the closing quote is the first double quote that
  \<^verbatim>\<open>strchr\<close> finds after the opening one. Allocation is taken to succeed.
\<close>

definition extract_json_string :: "string \<Rightarrow> string \<Rightarrow> string option" where
  "extract_json_string json key =
     (case find_json_value json key of
        None \<Rightarrow> None
      | Some start \<Rightarrow>
          (case start of
             [] \<Rightarrow> None
           | c # start' \<Rightarrow>
               if c \<noteq> DQUOTE then None
               else (case strchr start' DQUOTE of
                       None \<Rightarrow> None
                     | Some end' \<Rightarrow> Some (take (length start' - length end') start'))))"

text \<open>
  The loop of \<^verbatim>\<open>extract_json_array\<close>,
  \<^verbatim>\<open>while (*end && depth > 0) { ...; end++; }\<close>: the number of bytes it steps over.
\<close>

fun bracket_end :: "int \<Rightarrow> string \<Rightarrow> nat" where
  "bracket_end depth [] = 0"
| "bracket_end depth (c # cs) =
     (if depth > 0
      then Suc (bracket_end (if c = CHR ''['' then depth + 1
                             else if c = CHR '']'' then depth - 1
                             else depth) cs)
      else 0)"

definition extract_json_array :: "string \<Rightarrow> string \<Rightarrow> string option" where
  "extract_json_array json key =
     (case find_json_value json key of
        None \<Rightarrow> None
      | Some start \<Rightarrow>
          (case start of
             [] \<Rightarrow> None
           | c # rest \<Rightarrow>
               if c \<noteq> CHR ''['' then None
               else Some (c # take (bracket_end 1 rest) rest)))"

section \<open>Counting the elements\<close>

text \<open>
  One round of the \<^verbatim>\<open>for\<close> loop of \<^verbatim>\<open>count_array_elements\<close> at offset \<open>p\<close>;
  the state is \<open>(count, depth, in_string)\<close>. The counters are C \<^verbatim>\<open>int\<close>s; they
  cannot leave the range of \<^verbatim>\<open>int\<close> on a text shorter than \<open>2^31\<close> bytes.
\<close>

definition count_step :: "string \<Rightarrow> nat \<Rightarrow> int \<times> int \<times> bool \<Rightarrow> int \<times> int \<times> bool" where
  "count_step a p st =
     (case st of (count, depth, in_string) \<Rightarrow>
        (let c = a ! p;
             in_string' = (if c = DQUOTE \<and> (p = 0 \<or> a ! (p - 1) \<noteq> BSL)
                           then \<not> in_string else in_string)
         in if \<not> in_string' then
              (if c = CHR ''['' \<or> c = CHR ''{'' then (count, depth + 1, in_string')
               else if c = CHR '']'' \<or> c = CHR ''}'' then (count, depth - 1, in_string')
               else if depth = 1 \<and> (c = CHR '','' \<or> (depth = 1 \<and> p = 1 \<and> c \<noteq> CHR '']''))
                    then (if c = CHR '','' then (count + 1, depth, in_string')
                          else (count, depth, in_string'))
               else (count, depth, in_string'))
            else (count, depth, in_string')))"

function count_loop :: "string \<Rightarrow> nat \<Rightarrow> int \<times> int \<times> bool \<Rightarrow> int \<times> int \<times> bool" where
  "count_loop a p st =
     (if p < length a then count_loop a (p + 1) (count_step a p st) else st)"
  by pat_completeness auto
termination
  by (relation "measure (\<lambda>(a, p, st). length a - p)") auto

declare count_loop.simps [simp del]

definition count_array_elements :: "string option \<Rightarrow> int" where
  "count_array_elements array_str =
     (case array_str of
        None \<Rightarrow> 0
      | Some a \<Rightarrow>
          if peek a 0 \<noteq> CHR ''['' then 0
          else (case count_loop a 0 (0, 0, False) of
                  (count, depth, in_string) \<Rightarrow>
                    if length a > 2 then count + 1 else count))"

section \<open>The scans of \<^verbatim>\<open>first\<close> and \<^verbatim>\<open>last\<close>\<close>

text \<open>A round of a scanning loop either goes on with a new state or leaves the loop
  (\<^verbatim>\<open>break\<close>) with the offset the pointer has then.\<close>

datatype 'a scan = Continue 'a | Break nat

text \<open>\<^verbatim>\<open>while (*start == ' ' || *start == '\t' || *start == '\n') start++;\<close>\<close>

function skip_space :: "string \<Rightarrow> nat \<Rightarrow> nat" where
  "skip_space a s = (if is_space (peek a s) then skip_space a (s + 1) else s)"
  by pat_completeness auto
termination
  by (relation "measure (\<lambda>(a, s). length a - s)")
     (auto simp: peek_def is_space_def split: if_splits)

declare skip_space.simps [simp del]

text \<open>The forward scan for the end of the first element; the state is
  \<open>(depth, in_string)\<close>, \<open>start\<close> is where the element starts.\<close>

definition first_step :: "string \<Rightarrow> nat \<Rightarrow> nat \<Rightarrow> int \<times> bool \<Rightarrow> (int \<times> bool) scan" where
  "first_step a start e st =
     (case st of (depth, in_string) \<Rightarrow>
        (let c = a ! e;
             in_string' = (if c = DQUOTE \<and> (e = start \<or> a ! (e - 1) \<noteq> BSL)
                           then \<not> in_string else in_string)
         in if \<not> in_string' then
              (if c = CHR ''['' \<or> c = CHR ''{'' then Continue (depth + 1, in_string')
               else if c = CHR '']'' \<or> c = CHR ''}''
                    then (if depth = 0 then Break e else Continue (depth - 1, in_string'))
               else if c = CHR '','' \<and> depth = 0 then Break e
               else Continue (depth, in_string'))
            else Continue (depth, in_string')))"

function first_loop :: "string \<Rightarrow> nat \<Rightarrow> nat \<Rightarrow> int \<times> bool \<Rightarrow> nat" where
  "first_loop a start e st =
     (if e < length a
      then (case first_step a start e st of
              Break e' \<Rightarrow> e'
            | Continue st' \<Rightarrow> first_loop a start (e + 1) st')
      else e)"
  by pat_completeness auto
termination
  by (relation "measure (\<lambda>(a, start, e, st). length a - e)") auto

declare first_loop.simps [simp del]

text \<open>\<^verbatim>\<open>while (end > array_str && (*end == ']' || blank)) end--;\<close>\<close>

fun last_trim :: "string \<Rightarrow> nat \<Rightarrow> nat" where
  "last_trim a e =
     (if 0 < e \<and> (a ! e = CHR '']'' \<or> is_space (a ! e)) then last_trim a (e - 1) else e)"

declare last_trim.simps [simp del]

text \<open>The backward scan for the start of the last element. The comma case moves the
  pointer one byte forward before it leaves the loop.\<close>

definition last_step :: "string \<Rightarrow> nat \<Rightarrow> int \<times> bool \<Rightarrow> (int \<times> bool) scan" where
  "last_step a s st =
     (case st of (depth, in_string) \<Rightarrow>
        (let c = a ! s;
             in_string' = (if c = DQUOTE \<and> a ! (s - 1) \<noteq> BSL
                           then \<not> in_string else in_string)
         in if \<not> in_string' then
              (if c = CHR '']'' \<or> c = CHR ''}'' then Continue (depth + 1, in_string')
               else if c = CHR ''['' \<or> c = CHR ''{''
                    then (if depth = 0 then Break s else Continue (depth - 1, in_string'))
               else if c = CHR '','' \<and> depth = 0 then Break (s + 1)
               else Continue (depth, in_string'))
            else Continue (depth, in_string')))"

fun last_loop :: "string \<Rightarrow> nat \<Rightarrow> int \<times> bool \<Rightarrow> nat" where
  "last_loop a s st =
     (if 0 < s
      then (case last_step a s st of
              Break s' \<Rightarrow> s'
            | Continue st' \<Rightarrow> last_loop a (s - 1) st')
      else s)"

declare last_loop.simps [simp del]

section \<open>The qualifier entry point\<close>

text \<open>
  \<^verbatim>\<open>aro_plugin_qualifier\<close> takes the static state and the clock beside its two
  arguments and returns the text it wrote together with the new static state.
  Allocation is taken to succeed. The result is \<open>None\<close> where the C code has no defined
  result: in \<^verbatim>\<open>last\<close>, when the start of the element lies behind its end, the
  length \<^verbatim>\<open>end - start\<close> is negative and is handed to \<^verbatim>\<open>malloc\<close> and
  \<^verbatim>\<open>memcpy\<close> as a huge \<^verbatim>\<open>size_t\<close>.
\<close>

definition aro_plugin_qualifier ::
  "plugin_state \<Rightarrow> int \<Rightarrow> string \<Rightarrow> string \<Rightarrow> string option \<times> plugin_state" where
  \<open>aro_plugin_qualifier st now qualifier input_json =
     (let st' = init_random st now;
          ty = extract_json_string input_json ''type''
      in (if qualifier = ''first'' then
            (case extract_json_array input_json ''value'' of
               None \<Rightarrow> Some (snprintf_4096 ''{"error":"first requires a non-empty list"}'')
             | Some array_str \<Rightarrow>
                 if length array_str \<le> 2
                 then Some (snprintf_4096 ''{"error":"first requires a non-empty list"}'')
                 else (let start = skip_space array_str 1;
                           end' = first_loop array_str start start (0, False);
                           first_elem = take (end' - start) (drop start array_str)
                       in Some (snprintf_4096 (''{"result":'' @ first_elem @ ''}''))))
          else if qualifier = ''last'' then
            (case extract_json_array input_json ''value'' of
               None \<Rightarrow> Some (snprintf_4096 ''{"error":"last requires a non-empty list"}'')
             | Some array_str \<Rightarrow>
                 if length array_str \<le> 2
                 then Some (snprintf_4096 ''{"error":"last requires a non-empty list"}'')
                 else (let len = length array_str;
                           end' = last_trim array_str (len - 1) + 1;
                           start0 = last_loop array_str (end' - 1) (0, False);
                           start1 = (if peek array_str start0 = CHR ''['' then start0 + 1 else start0);
                           start = skip_space array_str start1
                       in if end' < start then None
                          else (let last_elem = take (end' - start) (drop start array_str)
                                in Some (snprintf_4096 (''{"result":'' @ last_elem @ ''}'')))))
          else if qualifier = ''size'' then
            (if ty = Some ''List'' then
               (let array_str = extract_json_array input_json ''value'';
                    count = count_array_elements array_str
                in Some (snprintf_4096 (''{"result":'' @ show_int count @ ''}'')))
             else if ty = Some ''String'' then
               (let str = extract_json_string input_json ''value'';
                    len = (case str of None \<Rightarrow> 0 | Some s \<Rightarrow> length s)
                in Some (snprintf_4096 (''{"result":'' @ show_nat len @ ''}'')))
             else Some (snprintf_4096 ''{"error":"size requires List or String"}''))
          else Some (snprintf_4096 (''{"error":"Unknown qualifier: '' @ qualifier @ ''"}'')),
          st'))\<close>

text \<open>The static state when the plugin is loaded: the flag is 0, and a generator that
  was never seeded behaves as if seeded with 1.\<close>

definition initial_state :: plugin_state where
  "initial_state = \<lparr>random_initialized = False, rand_seed = 1\<rparr>"

section \<open>The specification's array splitter\<close>

text \<open>
  The code has no function that lists the elements of an array; the specification
  describes one, \<open>splitTopLevel\<close>, and states \<^verbatim>\<open>first\<close>, \<^verbatim>\<open>last\<close> and the count
  against it. The definition below follows the specification's words, not the code:
  walk the interior of the span (without the outer brackets), keep the bracket and brace
  depth and the in-string state, where a double quote toggles the in-string state unless
  the byte before it is an unescaped backslash; a comma at depth 0 outside a string ends
  the current element; blanks around an element are trimmed; an interior of blanks only
  gives the empty sequence; a depth that would become negative is an error (\<open>None\<close>).
\<close>

definition trim :: "string \<Rightarrow> string" where
  "trim s = rev (dropWhile is_space (rev (dropWhile is_space s)))"

fun split_walk :: "int \<Rightarrow> bool \<Rightarrow> bool \<Rightarrow> string \<Rightarrow> string \<Rightarrow> string list option" where
  "split_walk depth in_string esc cur [] = Some [cur]"
| "split_walk depth in_string esc cur (c # cs) =
     (let in_string' = (if c = DQUOTE \<and> \<not> esc then \<not> in_string else in_string);
          esc' = (c = BSL \<and> \<not> esc)
      in if in_string' then split_walk depth in_string' esc' (cur @ [c]) cs
         else if c = CHR ''['' \<or> c = CHR ''{''
              then split_walk (depth + 1) in_string' esc' (cur @ [c]) cs
         else if c = CHR '']'' \<or> c = CHR ''}''
              then (if depth = 0 then None
                    else split_walk (depth - 1) in_string' esc' (cur @ [c]) cs)
         else if c = CHR '','' \<and> depth = 0
              then map_option ((#) cur) (split_walk 0 False False [] cs)
         else split_walk depth in_string' esc' (cur @ [c]) cs)"

definition splitTopLevel :: "string \<Rightarrow> string list option" where
  "splitTopLevel span =
     (let interior = butlast (tl span)
      in if list_all is_space interior then Some []
         else map_option (map trim) (split_walk 0 False False [] interior))"

section \<open>Predicates of the statements\<close>











section \<open>Auxiliary facts\<close>

subsection \<open>Every span is a piece of the input\<close>






subsection \<open>Numerals\<close>







lemma show_int_0: "show_int 0 = ''0''"
  by (simp add: show_int_def show_nat.simps digit_char_def)

subsection \<open>The scans\<close>








subsection \<open>The texts of the four branches\<close>












text \<open>A call that returns a text returns the same text from any other static state and
  at any other clock.\<close>

lemma returned_text_independent_of_seeding:
  "fst (aro_plugin_qualifier st now qualifier input_json) = Some out \<Longrightarrow>
   fst (aro_plugin_qualifier st' now' qualifier input_json) = Some out"
  by (simp add: aro_plugin_qualifier_def Let_def)

section \<open>The scenarios of the specification\<close>

text \<open>The six scenarios of section 8 of the specification, run on the model.\<close>

lemma scenario_1:
  \<open>fst (aro_plugin_qualifier st now ''first'' ''{"type":"List","value":[1,2,3]}'')
     = Some ''{"result":1}''\<close>
  by code_simp

lemma scenario_2:
  \<open>fst (aro_plugin_qualifier st now ''last'' ''{"type":"List","value":[1,2,3]}'')
     = Some ''{"result":3}''\<close>
  by code_simp

lemma scenario_3:
  \<open>fst (aro_plugin_qualifier st now ''first'' ''{"type":"List","value":[]}'')
     = Some ''{"error":"first requires a non-empty list"}''\<close>
  by code_simp

lemma scenario_4:
  \<open>fst (aro_plugin_qualifier st now ''size'' ''{"type":"List","value":["a,b","c"]}'')
     = Some ''{"result":2}''\<close>
  by code_simp

lemma scenario_5:
  \<open>fst (aro_plugin_qualifier st now ''size'' ''{"type":"String","value":"hello"}'')
     = Some ''{"result":5}''\<close>
  by code_simp

lemma scenario_6:
  \<open>fst (aro_plugin_qualifier st now ''bogus'' ''{"type":"List","value":[1,2,3]}'')
     = Some ''{"error":"Unknown qualifier: bogus"}''\<close>
  by code_simp

section \<open>The claims\<close>

subsection \<open>The last element\<close>

text \<open>
  Claim C1. The specification has \<^verbatim>\<open>last\<close> return the final element that the forward
  splitter produces. The code does not do so when the final element is a nested array:
  the loop that steps back over the closing bracket of the array steps back over every
  closing bracket and blank, so it also removes the bracket that closes the element, and
  the backward scan then stops at the comma inside the element. For the array
  \<^verbatim>\<open>[1,[2,3]]\<close> the splitter gives the elements \<^verbatim>\<open>1\<close> and \<^verbatim>\<open>[2,3]\<close>,
  and \<^verbatim>\<open>last\<close> returns \<^verbatim>\<open>{"result":3}\<close>, whatever the static state and clock.
\<close>

theorem last_differs_from_splitTopLevel_on_nested_array:
  \<open>extract_json_array ''{"type":"List","value":[1,[2,3]]}'' ''value'' = Some ''[1,[2,3]]''
   \<and> splitTopLevel ''[1,[2,3]]'' = Some [''1'', ''[2,3]'']
   \<and> fst (aro_plugin_qualifier st now ''last'' ''{"type":"List","value":[1,[2,3]]}'')
       = Some ''{"result":3}''\<close>
  by code_simp

subsection \<open>The array span\<close>

text \<open>
  Claim C2. The specification has the bracket counter of the span extraction ignore
  brackets inside quoted strings. The loop of \<^verbatim>\<open>extract_json_array\<close> keeps no
  in-string state and counts every bracket: for the value \<^verbatim>\<open>["]",1]\<close> the span it
  returns ends at the bracket inside the first string, \<^verbatim>\<open>["]\<close>, and \<^verbatim>\<open>size\<close>
  answers 1 for this array of two elements.
\<close>

theorem extract_json_array_counts_brackets_in_strings:
  \<open>extract_json_array ''{"type":"List","value":["]",1]}'' ''value'' = Some ''["]''
   \<and> fst (aro_plugin_qualifier st now ''size'' ''{"type":"List","value":["]",1]}'')
       = Some ''{"result":1}''\<close>
  by code_simp

text \<open>
  Claim C3. The specification has the span extraction return no span when the brackets
  never balance. The loop of \<^verbatim>\<open>extract_json_array\<close> stops at the end of the text
  and the function copies what it has scanned, without a look at the depth: for the
  document \<^verbatim>\<open>{"type":"List","value":[1,2\<close> it returns the span \<^verbatim>\<open>[1,2\<close>, and
  \<^verbatim>\<open>first\<close> answers \<^verbatim>\<open>{"result":1}\<close>; for an opening bracket followed by two
  blanks it returns these three bytes, for which \<^verbatim>\<open>last\<close> has no defined result.
  \<^verbatim>\<open>extract_json_string\<close> beside it does return nothing for a string that is not
  closed.
\<close>

theorem extract_json_array_returns_unbalanced_span:
  \<open>extract_json_array ''{"type":"List","value":[1,2'' ''value'' = Some ''[1,2''
   \<and> fst (aro_plugin_qualifier st now ''first'' ''{"type":"List","value":[1,2'')
       = Some ''{"result":1}''
   \<and> extract_json_array ''{"type":"List","value":[  '' ''value'' = Some ''[  ''
   \<and> fst (aro_plugin_qualifier st now ''last'' ''{"type":"List","value":[  '') = None
   \<and> extract_json_string ''{"type":"String","value":"ab'' ''value'' = None\<close>
  by code_simp

subsection \<open>Element boundaries and the count\<close>

text \<open>
  Claim C4. The specification has the forward scan never put an element boundary inside
  a quoted string. Scenario 4 of the specification holds: \<^verbatim>\<open>size\<close> of
  \<^verbatim>\<open>["a,b","c"]\<close> is 2. But the scans take a double quote as escaped whenever the
  byte before it is a backslash, also when that backslash is itself escaped. In the array
  of the two strings \<^verbatim>\<open>"x\\"\<close> and \<^verbatim>\<open>"a,b,c"\<close> the first string is therefore not
  seen to end, the second one is read as text outside a string, and its commas are taken
  as boundaries: the count is 3, and \<^verbatim>\<open>first\<close> returns the text up to the comma
  inside the second string.
\<close>

theorem forward_scan_splits_inside_string:
  \<open>fst (aro_plugin_qualifier st now ''size'' ''{"type":"List","value":["a,b","c"]}'')
       = Some ''{"result":2}''
   \<and> splitTopLevel (''["x'' @ [BSL, BSL] @ ''","a,b,c"]'')
       = Some [''"x'' @ [BSL, BSL] @ ''"'', ''"a,b,c"'']
   \<and> count_array_elements (Some (''["x'' @ [BSL, BSL] @ ''","a,b,c"]'')) = 3
   \<and> fst (aro_plugin_qualifier st now ''first''
          (''{"type":"List","value":["x'' @ [BSL, BSL] @ ''","a,b,c"]}''))
       = Some (''{"result":"x'' @ [BSL, BSL] @ ''","a}'')\<close>
  by code_simp

text \<open>
  Claim C5. The specification has the count be the length of the splitter's sequence,
  zero for an array with nothing but blanks between its brackets.
  \<^verbatim>\<open>count_array_elements\<close> adds one for the first element whenever the span is longer
  than two bytes, so for the array \<^verbatim>\<open>[ ]\<close>, where the splitter gives the empty
  sequence, it answers 1.
\<close>

theorem count_of_blank_array:
  \<open>splitTopLevel ''[ ]'' = Some []
   \<and> count_array_elements (Some ''[ ]'') = 1
   \<and> fst (aro_plugin_qualifier st now ''size'' ''{"type":"List","value":[ ]}'')
       = Some ''{"result":1}''\<close>
  by code_simp

subsection \<open>The empty array in \<^verbatim>\<open>first\<close> and \<^verbatim>\<open>last\<close>\<close>

text \<open>
  Claim C6. The specification has \<^verbatim>\<open>first\<close> and \<^verbatim>\<open>last\<close> answer with their
  error document for an array with nothing but blanks between its brackets. Both guards
  test the length of the span against 2 instead. For the array \<^verbatim>\<open>[ ]\<close> the span has
  three bytes, \<^verbatim>\<open>first\<close> goes on and returns \<^verbatim>\<open>{"result":}\<close> with an empty
  element, and \<^verbatim>\<open>last\<close> computes a start behind the end of the element, for which
  the copy has no defined result.
\<close>

theorem first_of_blank_array:
  \<open>extract_json_array ''{"type":"List","value":[ ]}'' ''value'' = Some ''[ ]''
   \<and> fst (aro_plugin_qualifier st now ''first'' ''{"type":"List","value":[ ]}'')
       = Some ''{"result":}''
   \<and> fst (aro_plugin_qualifier st now ''last'' ''{"type":"List","value":[ ]}'') = None\<close>
  by code_simp

subsection \<open>String values\<close>

text \<open>
  Claim C7. The specification has \<^verbatim>\<open>extract_json_string\<close> end the string at the next
  unescaped double quote. The code ends it at the next double quote of any kind: for the
  value \<^verbatim>\<open>"a\"b"\<close> it returns two bytes, the letter and the backslash, and
  \<^verbatim>\<open>size\<close> answers 2
  where the text between the quotes has four bytes.
\<close>

theorem extract_json_string_stops_at_escaped_quote:
  \<open>extract_json_string (''{"type":"String","value":"a'' @ [BSL] @ ''"b"}'') ''value''
       = Some (''a'' @ [BSL])
   \<and> fst (aro_plugin_qualifier st now ''size''
          (''{"type":"String","value":"a'' @ [BSL] @ ''"b"}''))
       = Some ''{"result":2}''\<close>
  by code_simp

subsection \<open>The returned text\<close>




text \<open>
  Claim C9. The specification has two calls with the same arguments return the same
  bytes. For \<^verbatim>\<open>last\<close> on the array \<^verbatim>\<open>[ ]\<close>, and on the array \<^verbatim>\<open>[[ ]]\<close>, no
  bytes are defined at all: the start of the element lies behind its end and the negative
  length goes to the copy, whatever the static state and the clock. On every call that
  does return, the text is the same from any state and at any clock
  (\<open>returned_text_independent_of_seeding\<close>).
\<close>

theorem last_without_defined_result:
  \<open>fst (aro_plugin_qualifier st now ''last'' ''{"type":"List","value":[ ]}'') = None
   \<and> fst (aro_plugin_qualifier st now ''last'' ''{"type":"List","value":[[ ]]}'') = None\<close>
  by code_simp

subsection \<open>\<^verbatim>\<open>size\<close> without an array\<close>

text \<open>
  Claim C10. When the type field is \<^verbatim>\<open>"List"\<close> and the value field is absent, or the
  text found for it does not start with an opening bracket, \<^verbatim>\<open>size\<close> returns
  \<^verbatim>\<open>{"result":0}\<close>: \<^verbatim>\<open>count_array_elements\<close> maps the missing array to 0.
\<close>

theorem size_of_list_without_array:
  assumes "extract_json_string input_json ''type'' = Some ''List''"
      and "find_json_value input_json ''value'' = None \<or>
           (\<exists>rest. find_json_value input_json ''value'' = Some rest \<and> peek rest 0 \<noteq> CHR ''['')"
  shows \<open>fst (aro_plugin_qualifier st now ''size'' input_json) = Some ''{"result":0}''\<close>
proof -
  from assms(2) have "extract_json_array input_json ''value'' = None"
    by (auto simp: extract_json_array_def peek_def split: list.splits)
  with assms(1) show ?thesis
    by (simp add: aro_plugin_qualifier_def Let_def count_array_elements_def show_int_0
          snprintf_4096_def)
qed

text \<open>
  The theorem at a document whose value is a string, not an array.
\<close>

theorem size_of_list_without_array_witness:
  \<open>extract_json_string ''{"type":"List","value":"abc"}'' ''type'' = Some ''List''
   \<and> find_json_value ''{"type":"List","value":"abc"}'' ''value'' = Some ''"abc"}''
   \<and> peek ''"abc"}'' 0 \<noteq> CHR ''[''
   \<and> fst (aro_plugin_qualifier initial_state 0 ''size'' ''{"type":"List","value":"abc"}'')
       = Some ''{"result":0}''\<close>
  using size_of_list_without_array
          [where input_json = \<open>''{"type":"List","value":"abc"}''\<close>
             and st = initial_state and now = 0]
  by (simp add: extract_json_string_def find_json_value_def is_space_def peek_def)

end
